theory Spec2Isabelle
  imports Main "HOL-Library.Sublist"
begin

section \<open>Python strings\<close>

text \<open>
  A Python \<open>str\<close> is modelled as a \<open>string\<close>. The helpers below are the string
  operations that \<open>app.py\<close> uses: \<open>str(int)\<close>, \<open>sep.join\<close>, \<open>s.lower()\<close>,
  \<open>x in s\<close>, \<open>s.split(sep)\<close>, \<open>s.strip()\<close>, \<open>s.strip('-')\<close> and the two
  \<open>re.sub\<close> calls of \<open>generate_repo_name\<close>. Lower-casing and white space are
  the ASCII ones.
\<close>

definition nl :: string where
  "nl = [CHR 0x0A]"

definition digit_char :: "nat \<Rightarrow> char" where
  "digit_char d = char_of (48 + d)"

fun str_nat :: "nat \<Rightarrow> string" where
  "str_nat n = (if n < 10 then [digit_char n] else str_nat (n div 10) @ [digit_char (n mod 10)])"

declare str_nat.simps [simp del]

definition str_int :: "int \<Rightarrow> string" where
  "str_int i = (if i < 0 then CHR ''-'' # str_nat (nat (- i)) else str_nat (nat i))"

fun join :: "string \<Rightarrow> string list \<Rightarrow> string" where
  "join sep [] = []"
| "join sep [x] = x"
| "join sep (x # y # ys) = x @ sep @ join sep (y # ys)"

definition lower_char :: "char \<Rightarrow> char" where
  "lower_char c =
     (let n = of_char c :: nat in if 65 \<le> n \<and> n \<le> 90 then char_of (n + 32) else c)"

definition lower :: "string \<Rightarrow> string" where
  "lower s = map lower_char s"

fun contains :: "string \<Rightarrow> string \<Rightarrow> bool" where
  "contains [] sub = (sub = [])"
| "contains (c # cs) sub = (prefix sub (c # cs) \<or> contains cs sub)"

function split_acc :: "string \<Rightarrow> string \<Rightarrow> string \<Rightarrow> string list" where
  "split_acc sep acc [] = [rev acc]"
| "split_acc sep acc (c # cs) =
     (if sep \<noteq> [] \<and> prefix sep (c # cs)
      then rev acc # split_acc sep [] (drop (length sep) (c # cs))
      else split_acc sep (c # acc) cs)"
  by pat_completeness auto
termination
  by (relation "measure (\<lambda>(sep, acc, s). length s)") auto

definition split :: "string \<Rightarrow> string \<Rightarrow> string list" where
  "split s sep = split_acc sep [] s"

definition is_space :: "char \<Rightarrow> bool" where
  "is_space c = (let n = of_char c :: nat in (9 \<le> n \<and> n \<le> 13) \<or> (28 \<le> n \<and> n \<le> 32))"

definition strip_chars :: "(char \<Rightarrow> bool) \<Rightarrow> string \<Rightarrow> string" where
  "strip_chars p s = rev (dropWhile p (rev (dropWhile p s)))"

definition strip :: "string \<Rightarrow> string" where
  "strip s = strip_chars is_space s"

definition is_name_char :: "char \<Rightarrow> bool" where
  "is_name_char c =
     (let n = of_char c :: nat
      in (97 \<le> n \<and> n \<le> 122) \<or> (65 \<le> n \<and> n \<le> 90) \<or> (48 \<le> n \<and> n \<le> 57) \<or> c = CHR ''-'')"

fun squeeze_dashes :: "string \<Rightarrow> string" where
  "squeeze_dashes [] = []"
| "squeeze_dashes [c] = [c]"
| "squeeze_dashes (c # d # cs) =
     (if c = CHR ''-'' \<and> d = CHR ''-'' then squeeze_dashes (d # cs)
      else c # squeeze_dashes (d # cs))"

section \<open>Data model\<close>

record Attachment =
  name :: string
  url :: string

record TaskRequest =
  email :: string
  secret :: string
  task :: string
  round :: int
  nonce :: string
  brief :: string
  checks :: "string list"
  evaluation_url :: string
  attachments :: "Attachment list"

text \<open>\<open>TaskResponse\<close>: the notification payload. Its fields carry the prefix \<open>resp_\<close>.\<close>

record TaskResponse =
  resp_email :: string
  resp_task :: string
  resp_round :: int
  resp_nonce :: string
  resp_repo_url :: string
  resp_commit_sha :: string
  resp_pages_url :: string

text \<open>
  \<open>CONFIG\<close>: \<open>os.getenv\<close> gives \<open>None\<close> for a variable that is not set. \<open>login\<close> is
  the account that \<open>GITHUB_TOKEN\<close> authenticates (\<open>gh.get_user().login\<close>).
\<close>

record CONFIG =
  SECRET :: string
  GITHUB_TOKEN :: "string option"
  AIPIPE_API_KEY :: "string option"
  login :: string

definition MAX_PROCESSING_TIME :: nat where
  "MAX_PROCESSING_TIME = 9 * 60"

definition TASK_TIMEOUT :: nat where
  "TASK_TIMEOUT = 60 * 8"

text \<open>The dictionary stored in \<open>tasks[request.task]\<close> by round 1.\<close>

record round1_data =
  r1_repo_url :: string
  r1_email :: string
  r1_brief :: string

text \<open>An artifact set \<open>Dict[str, str]\<close>, in insertion order (the order of \<open>.items()\<close>).\<close>

type_synonym artifacts = "(string \<times> string) list"

text \<open>JSON values, as \<open>response.json()\<close> returns them.\<close>

datatype json =
    JNull
  | JBool bool
  | JNum int
  | JStr string
  | JList "json list"
  | JDict "(string \<times> json) list"

text \<open>
  What an HTTP POST comes back with: an exception of \<open>httpx\<close> (connection failure,
  timeout), or a response with its status code, its text and its body parsed as JSON
  (\<open>None\<close> when \<open>response.json()\<close> raises).
\<close>

datatype http_reply =
    Net_error string
  | Http nat string "json option"

text \<open>
  Python exceptions. \<open>except Exception\<close> catches all of them but \<open>CancelledError\<close>;
  \<open>except GithubException\<close> catches \<open>GithubException\<close> only.
\<close>

datatype exc =
    Exception string
  | GithubException string
  | CancelledError
  | TimeoutError

fun str_exc :: "exc \<Rightarrow> string" where
  "str_exc (Exception m) = m"
| "str_exc (GithubException m) = m"
| "str_exc CancelledError = []"
| "str_exc TimeoutError = []"

section \<open>The world: program state, collaborators, clock and trace\<close>

datatype level = INFO | WARNING | ERROR

text \<open>
  The trace records what an instrumented run observes, each entry with the time it
  happened at: the entry into a function (\<open>Call\<close>), a \<open>logger\<close> call (messages in
  ASCII, without the leading pictogram), a POST issued to the text-generation endpoint,
  a POST issued to the evaluation URL with its payload, an \<open>asyncio.sleep\<close>, and, for
  the request path, the moment the framework sends the HTTP response.
\<close>

datatype event =
    Call string
  | Log level string
  | Post_ai
  | Post_callback string TaskResponse
  | Sleep nat
  | Response_sent nat

text \<open>
  A hosted repository: files by branch and path, the number of commits, and its page
  address.
\<close>

record repo =
  html_url :: string
  files :: "(string \<times> string) \<rightharpoonup> string"
  commits :: nat

text \<open>
  \<open>tasks\<close> is the module-level dictionary of \<open>app.py\<close>. \<open>github\<close> is the hosting
  service, by full name \<open>owner/name\<close>. \<open>now\<close> is the clock in seconds and
  \<open>deadline\<close> the time at which the enclosing \<open>asyncio.wait_for\<close> cancels the
  running coroutine. The last three fields script the collaborators: the replies (each
  with the seconds it takes to arrive) of the text-generation endpoint and of the
  evaluation URL to successive POSTs, and the seconds each batch of blocking PyGithub
  calls takes. An exhausted script means an unreachable endpoint, and no delay.
\<close>

record world =
  tasks :: "string \<rightharpoonup> round1_data"
  github :: "string \<rightharpoonup> repo"
  now :: nat
  deadline :: "nat option"
  trace :: "(nat \<times> event) list"
  ai_replies :: "(nat \<times> http_reply) list"
  cb_replies :: "(nat \<times> http_reply) list"
  gh_delays :: "nat list"

text \<open>
  Library functions and literals taken as parameters: \<open>hashlib.md5(s).hexdigest()\<close>,
  \<open>datetime.now().isoformat()\<close> of a clock value, \<open>str\<close> of a JSON value that is not
  a string, the \<open>sha\<close> of the latest commit of a repository, and the three canned pages
  that \<open>generate_fallback_app\<close> holds as literals.
\<close>

record lib =
  md5_hexdigest :: "string \<Rightarrow> string"
  isoformat :: "nat \<Rightarrow> string"
  str_json :: "json \<Rightarrow> string"
  commit_sha_of :: "string \<Rightarrow> nat \<Rightarrow> string"
  CALCULATOR_HTML :: string
  CAPTCHA_HTML :: string
  MARKDOWN_HTML :: string

definition emit :: "event \<Rightarrow> world \<Rightarrow> world" where
  "emit e w = w\<lparr>trace := trace w @ [(now w, e)]\<rparr>"

definition logger :: "level \<Rightarrow> string \<Rightarrow> world \<Rightarrow> world" where
  "logger l m w = emit (Log l m) w"

text \<open>
  Time. A blocking call cannot be cancelled: the clock advances. At an \<open>await\<close> that
  takes \<open>d\<close> seconds the coroutine is suspended, and the timer of \<open>wait_for\<close> cancels it
  there if it is due by then: \<open>CancelledError\<close> is raised at the \<open>await\<close>, at the
  deadline (or at once when the deadline has passed during a blocking call).
\<close>

definition github_block :: "world \<Rightarrow> world" where
  "github_block w =
     (case gh_delays w of
        [] \<Rightarrow> w
      | d # ds \<Rightarrow> w\<lparr>now := now w + d, gh_delays := ds\<rparr>)"

definition overdue :: "world \<Rightarrow> bool" where
  "overdue w = (case deadline w of None \<Rightarrow> False | Some t \<Rightarrow> t \<le> now w)"

definition suspend :: "nat \<Rightarrow> world \<Rightarrow> bool \<times> world" where
  "suspend d w =
     (case deadline w of
        None \<Rightarrow> (False, w\<lparr>now := now w + d\<rparr>)
      | Some t \<Rightarrow>
          if t \<le> now w \<or> t < now w + d then (True, w\<lparr>now := max t (now w)\<rparr>)
          else (False, w\<lparr>now := now w + d\<rparr>))"

definition asyncio_sleep :: "nat \<Rightarrow> world \<Rightarrow> (exc + unit) \<times> world" where
  "asyncio_sleep d w =
     (case suspend d (emit (Sleep d) w) of
        (True, w') \<Rightarrow> (Inl CancelledError, w')
      | (False, w') \<Rightarrow> (Inr (), w'))"

text \<open>
  \<open>await client.post(...)\<close>: the request goes out after the first suspension (the
  connection), so a coroutine that is already overdue is cancelled before it is sent.
\<close>

definition post_callback :: "string \<Rightarrow> TaskResponse \<Rightarrow> world \<Rightarrow> (exc + http_reply) \<times> world" where
  "post_callback eval_url response w =
     (if overdue w then (Inl CancelledError, w)
      else
        let w1 = emit (Post_callback eval_url response) w;
            (d, reply) = (case cb_replies w1 of [] \<Rightarrow> (0, Net_error ''connection failed'') | r # _ \<Rightarrow> r);
            w2 = w1\<lparr>cb_replies := tl (cb_replies w1)\<rparr>
        in case suspend d w2 of
             (True, w3) \<Rightarrow> (Inl CancelledError, w3)
           | (False, w3) \<Rightarrow> (Inr reply, w3))"

definition post_ai :: "world \<Rightarrow> (exc + http_reply) \<times> world" where
  "post_ai w =
     (if overdue w then (Inl CancelledError, w)
      else
        let w1 = emit Post_ai w;
            (d, reply) = (case ai_replies w1 of [] \<Rightarrow> (0, Net_error ''connection failed'') | r # _ \<Rightarrow> r);
            w2 = w1\<lparr>ai_replies := tl (ai_replies w1)\<rparr>
        in case suspend d w2 of
             (True, w3) \<Rightarrow> (Inl CancelledError, w3)
           | (False, w3) \<Rightarrow> (Inr reply, w3))"

section \<open>Content Generator\<close>

subsection \<open>Text helpers\<close>

definition generate_readme :: "string \<Rightarrow> string list \<Rightarrow> string \<Rightarrow> string" where
  "generate_readme brief_text check_list task_id =
     join nl
     [''# '' @ task_id,
      [],
      ''## Description'',
      ''Automatically generated web application.'',
      [],
      ''**Brief**: '' @ brief_text,
      [],
      ''## Features'',
      ''- Responsive web application'',
      ''- Deployed on GitHub Pages'',
      ''- AI-generated code'',
      [],
      ''## Evaluation Criteria'',
      join nl (map (\<lambda>check. ''- '' @ check) check_list),
      [],
      ''## Setup'',
      ''This is a static web application. No setup required.'',
      [],
      ''## License'',
      ''MIT License'',
      []]"

definition generate_updated_readme :: "string \<Rightarrow> string \<Rightarrow> string \<Rightarrow> string" where
  "generate_updated_readme original_brief modification_brief task_id =
     join nl
     [''# '' @ task_id,
      [],
      ''## Description'',
      ''Automatically generated and modified web application.'',
      [],
      ''**Original Brief**: '' @ original_brief,
      [],
      ''**Modification**: '' @ modification_brief,
      [],
      ''## History'',
      ''- **Round 1**: Initial application created'',
      ''- **Round 2**: Application modified with new features'',
      [],
      ''## License'',
      ''MIT License'',
      []]"

definition generate_mit_license :: string where
  "generate_mit_license =
     join nl
     [''MIT License'',
      [],
      ''Copyright (c) 2024 Generated Application'',
      [],
      ''Permission is hereby granted, free of charge, to any person obtaining a copy'',
      ''of this software and associated documentation files (the '' @ [CHR 0x22] @ ''Software'' @ [CHR 0x22] @ ''), to deal'',
      ''in the Software without restriction, including without limitation the rights'',
      ''to use, copy, modify, merge, publish, distribute, sublicense, and/or sell'',
      ''copies of the Software, and to permit persons to whom the Software is'',
      ''furnished to do so, subject to the following conditions:'',
      [],
      ''The above copyright notice and this permission notice shall be included in all'',
      ''copies or substantial portions of the Software.'',
      [],
      ''THE SOFTWARE IS PROVIDED '' @ [CHR 0x22] @ ''AS IS'' @ [CHR 0x22] @ '', WITHOUT WARRANTY OF ANY KIND, EXPRESS OR'',
      ''IMPLIED, INCLUDING BUT NOT LIMITED TO THE WARRANTIES OF MERCHANTABILITY,'',
      ''FITNESS FOR A PARTICULAR PURPOSE AND NONINFRINGEMENT. IN NO EVENT SHALL THE'',
      ''AUTHORS OR COPYRIGHT HOLDERS BE LIABLE FOR ANY CLAIM, DAMAGES OR OTHER'',
      ''LIABILITY, WHETHER IN AN ACTION OF CONTRACT, TORT OR OTHERWISE, ARISING FROM,'',
      ''OUT OF OR IN CONNECTION WITH THE SOFTWARE OR THE USE OR OTHER DEALINGS IN THE'',
      ''SOFTWARE.'']"

definition generate_gitignore :: string where
  "generate_gitignore =
     join nl
     [''# Dependencies'',
      ''node_modules/'',
      ''.env'',
      [],
      ''# Build outputs'',
      ''dist/'',
      ''build/'',
      [],
      ''# OS files'',
      ''.DS_Store'',
      ''Thumbs.db'',
      [],
      ''# IDE'',
      ''.vscode/'',
      ''.idea/'',
      ''*.swp'',
      ''*.swo'',
      [],
      ''# Logs'',
      ''*.log'',
      []]"

definition generate_fallback_html :: "string \<Rightarrow> string" where
  "generate_fallback_html brief_text =
     join nl
     [''<!DOCTYPE html>'',
      ''<html lang='' @ [CHR 0x22] @ ''en'' @ [CHR 0x22] @ ''>'',
      ''<head>'',
      ''    <meta charset='' @ [CHR 0x22] @ ''UTF-8'' @ [CHR 0x22] @ ''>'',
      ''    <meta name='' @ [CHR 0x22] @ ''viewport'' @ [CHR 0x22] @ '' content='' @ [CHR 0x22] @ ''width=device-width, initial-scale=1.0'' @ [CHR 0x22] @ ''>'',
      ''    <title>Generated App - '' @ take 50 brief_text @ ''</title>'',
      ''    <style>'',
      ''        body '' @ ''{'',
      ''            font-family: Arial, sans-serif;'',
      ''            max-width: 800px;'',
      ''            margin: 0 auto;'',
      ''            padding: 20px;'',
      ''            line-height: 1.6;'',
      ''        '' @ ''}'',
      ''        .container '' @ ''{'',
      ''            background: #f5f5f5;'',
      ''            padding: 20px;'',
      ''            border-radius: 8px;'',
      ''            margin-top: 20px;'',
      ''        '' @ ''}'',
      ''        h1 '' @ ''{'',
      ''            color: #333;'',
      ''        '' @ ''}'',
      ''    </style>'',
      ''</head>'',
      ''<body>'',
      ''    <h1>Generated Web Application</h1>'',
      ''    <div class='' @ [CHR 0x22] @ ''container'' @ [CHR 0x22] @ ''>'',
      ''        <h2>Application Brief</h2>'',
      ''        <p>'' @ brief_text @ ''</p>'',
      ''        <p><em>This is a placeholder application. The AI code generation will be implemented next.</em></p>'',
      ''    </div>'',
      [],
      ''    <script>'',
      ''        console.log('' @ [CHR 0x27] @ ''Application loaded for:'' @ [CHR 0x27] @ '', '' @ [CHR 0x27] @ take 50 brief_text @ [CHR 0x27] @ '');'',
      ''    </script>'',
      ''</body>'',
      ''</html>'']"

subsection \<open>The fallback application\<close>

definition generate_fallback_app :: "lib \<Rightarrow> TaskRequest \<Rightarrow> artifacts" where
  "generate_fallback_app L request =
     (let brief_lower = lower (brief request);
          html_content =
            (if contains brief_lower ''calculator'' then CALCULATOR_HTML L
             else if contains brief_lower ''captcha'' then CAPTCHA_HTML L
             else if contains brief_lower ''markdown'' \<or> contains brief_lower ''html''
               then MARKDOWN_HTML L
             else generate_fallback_html (brief request))
      in [(''index.html'', html_content),
          (''README.md'', generate_readme (brief request) (checks request) (task request)),
          (''LICENSE'', generate_mit_license),
          (''.gitignore'', generate_gitignore)])"

subsection \<open>Reading the reply of the text-generation endpoint\<close>

text \<open>
  The operations of \<open>app.py\<close> on the parsed body, with the exception each raises on a
  value of the wrong shape: \<open>key in v\<close>, \<open>v[key]\<close>, \<open>len(v)\<close>, \<open>v[0]\<close>,
  \<open>v.get(key, default)\<close> and \<open>str(v)\<close>.
\<close>

fun py_in :: "string \<Rightarrow> json \<Rightarrow> exc + bool" where
  "py_in key (JDict kvs) = Inr (map_of kvs key \<noteq> None)"
| "py_in key (JList xs) = Inr (List.member xs (JStr key))"
| "py_in key (JStr s) = Inr (contains s key)"
| "py_in key v = Inl (Exception ''TypeError'')"

fun py_getitem :: "json \<Rightarrow> string \<Rightarrow> exc + json" where
  "py_getitem (JDict kvs) key =
     (case map_of kvs key of None \<Rightarrow> Inl (Exception ''KeyError'') | Some v \<Rightarrow> Inr v)"
| "py_getitem v key = Inl (Exception ''TypeError'')"

fun py_len :: "json \<Rightarrow> exc + nat" where
  "py_len (JDict kvs) = Inr (length kvs)"
| "py_len (JList xs) = Inr (length xs)"
| "py_len (JStr s) = Inr (length s)"
| "py_len v = Inl (Exception ''TypeError'')"

fun py_first :: "json \<Rightarrow> exc + json" where
  "py_first (JList []) = Inl (Exception ''IndexError'')"
| "py_first (JList (x # xs)) = Inr x"
| "py_first (JStr []) = Inl (Exception ''IndexError'')"
| "py_first (JStr (c # cs)) = Inr (JStr [c])"
| "py_first (JDict kvs) = Inl (Exception ''KeyError'')"
| "py_first v = Inl (Exception ''TypeError'')"

fun py_get :: "json \<Rightarrow> string \<Rightarrow> json \<Rightarrow> exc + json" where
  "py_get (JDict kvs) key dflt = Inr (case map_of kvs key of None \<Rightarrow> dflt | Some v \<Rightarrow> v)"
| "py_get v key dflt = Inl (Exception ''AttributeError'')"

definition to_str :: "lib \<Rightarrow> json \<Rightarrow> string" where
  "to_str L v = (case v of JStr s \<Rightarrow> s | _ \<Rightarrow> str_json L v)"

definition item :: "'a list \<Rightarrow> nat \<Rightarrow> exc + 'a" where
  "item xs i = (if i < length xs then Inr (xs ! i) else Inl (Exception ''IndexError''))"

text \<open>The loop of \<open>extract_html_code\<close> over a list of message objects.\<close>

fun list_text :: "json list \<Rightarrow> exc + string" where
  "list_text [] = Inr []"
| "list_text (JDict kvs # rest) =
     (case map_of kvs ''text'' of
        None \<Rightarrow> list_text rest
      | Some (JStr t) \<Rightarrow>
          (case list_text rest of Inl e \<Rightarrow> Inl e | Inr s \<Rightarrow> Inr (t @ nl @ s))
      | Some _ \<Rightarrow> Inl (Exception ''TypeError''))"
| "list_text (JStr t # rest) =
     (case list_text rest of Inl e \<Rightarrow> Inl e | Inr s \<Rightarrow> Inr (t @ nl @ s))"
| "list_text (other # rest) = list_text rest"

definition fence :: string where
  "fence = [CHR 0x60, CHR 0x60, CHR 0x60]"

definition between_fences :: "string \<Rightarrow> string \<Rightarrow> exc + string" where
  "between_fences content opening =
     (case item (split content opening) 1 of
        Inl e \<Rightarrow> Inl e
      | Inr rest \<Rightarrow>
          (case item (split rest fence) 0 of
             Inl e \<Rightarrow> Inl e
           | Inr code \<Rightarrow> Inr (strip code)))"

definition extract_html_code :: "lib \<Rightarrow> json \<Rightarrow> exc + string" where
  "extract_html_code L content =
     (case (case content of
              JList items \<Rightarrow> list_text items
            | JDict kvs \<Rightarrow>
                (case map_of kvs ''text'' of
                   Some v \<Rightarrow> Inr (to_str L v)
                 | None \<Rightarrow>
                     (case map_of kvs ''output'' of
                        Some v \<Rightarrow> Inr (to_str L v)
                      | None \<Rightarrow> Inr (str_json L content)))
            | _ \<Rightarrow> Inr (to_str L content)) of
        Inl e \<Rightarrow> Inl e
      | Inr text \<Rightarrow>
          (case (if contains text (fence @ ''html'') then between_fences text (fence @ ''html'')
                 else if contains text fence then between_fences text fence
                 else Inr text) of
             Inl e \<Rightarrow> Inl e
           | Inr code \<Rightarrow> Inr (strip code)))"

text \<open>
  \<open>result["choices"][0].get("message", {}).get("content", "")\<close>, and the test
  \<open>"choices" in result and len(result["choices"]) > 0\<close> before it.
\<close>

definition has_choices :: "json \<Rightarrow> exc + bool" where
  "has_choices result =
     (case py_in ''choices'' result of
        Inl e \<Rightarrow> Inl e
      | Inr False \<Rightarrow> Inr False
      | Inr True \<Rightarrow>
          (case py_getitem result ''choices'' of
             Inl e \<Rightarrow> Inl e
           | Inr cs \<Rightarrow> (case py_len cs of Inl e \<Rightarrow> Inl e | Inr n \<Rightarrow> Inr (n > 0))))"

definition first_choice_content :: "json \<Rightarrow> exc + json" where
  "first_choice_content result =
     (case py_getitem result ''choices'' of
        Inl e \<Rightarrow> Inl e
      | Inr cs \<Rightarrow>
          (case py_first cs of
             Inl e \<Rightarrow> Inl e
           | Inr c \<Rightarrow>
               (case py_get c ''message'' (JDict []) of
                  Inl e \<Rightarrow> Inl e
                | Inr m \<Rightarrow> py_get m ''content'' (JStr []))))"

subsection \<open>Round 1: \<open>generate_app_with_ai\<close>\<close>

definition ai_configured :: "CONFIG \<Rightarrow> bool" where
  "ai_configured C =
     (case AIPIPE_API_KEY C of
        None \<Rightarrow> False
      | Some k \<Rightarrow> k \<noteq> [] \<and> k \<noteq> ''your_aipipe_key_here'')"

definition ai_files :: "TaskRequest \<Rightarrow> string \<Rightarrow> artifacts" where
  "ai_files request html_content =
     [(''index.html'', html_content),
      (''README.md'', generate_readme (brief request) (checks request) (task request)),
      (''LICENSE'', generate_mit_license),
      (''.gitignore'', generate_gitignore)]"

text \<open>
  The body of the \<open>try\<close> of \<open>generate_app_with_ai\<close>. \<open>Inl\<close> is an exception that
  leaves the body; the two \<open>return generate_fallback_app(request)\<close> inside it are
  results.
\<close>

definition generate_try :: "lib \<Rightarrow> TaskRequest \<Rightarrow> world \<Rightarrow> (exc + artifacts) \<times> world" where
  "generate_try L request w =
     (case post_ai w of
        (Inl e, w1) \<Rightarrow> (Inl e, w1)
      | (Inr (Net_error m), w1) \<Rightarrow> (Inl (Exception m), w1)
      | (Inr (Http status text body), w1) \<Rightarrow>
          if status = 200 then
            (case body of
               None \<Rightarrow> (Inl (Exception ''JSONDecodeError''), w1)
             | Some result \<Rightarrow>
                 let w2 = logger INFO ''AIPipe API response received'' w1
                 in (case py_in ''output'' result of
                      Inl e \<Rightarrow> (Inl e, w2)
                    | Inr True \<Rightarrow>
                        (case py_getitem result ''output'' of
                           Inl e \<Rightarrow> (Inl e, w2)
                         | Inr out \<Rightarrow>
                             (case extract_html_code L out of
                                Inl e \<Rightarrow> (Inl e, w2)
                              | Inr html_content \<Rightarrow>
                                  (Inr (ai_files request html_content),
                                   logger INFO ''AIPipe code generation successful (output field)'' w2)))
                    | Inr False \<Rightarrow>
                        (case has_choices result of
                           Inl e \<Rightarrow> (Inl e, w2)
                         | Inr True \<Rightarrow>
                             (case first_choice_content result of
                                Inl e \<Rightarrow> (Inl e, w2)
                              | Inr c \<Rightarrow>
                                  (case extract_html_code L c of
                                     Inl e \<Rightarrow> (Inl e, w2)
                                   | Inr html_content \<Rightarrow>
                                       (Inr (ai_files request html_content),
                                        logger INFO ''AIPipe code generation successful (choices field)'' w2)))
                         | Inr False \<Rightarrow>
                             (Inr (generate_fallback_app L request),
                              logger WARNING
                                (''AIPipe response format unexpected: '' @ str_json L result @ '', using fallback'')
                                w2))))
          else
            (Inr (generate_fallback_app L request),
             logger WARNING
               (''AIPipe API returned '' @ str_nat status @ '': '' @ text @ '', using fallback'') w1))"

definition generate_app_with_ai ::
  "CONFIG \<Rightarrow> lib \<Rightarrow> TaskRequest \<Rightarrow> world \<Rightarrow> (exc + artifacts) \<times> world" where
  "generate_app_with_ai C L request w =
     (let w0 = emit (Call ''generate_app_with_ai'') w
      in if \<not> ai_configured C
         then (Inr (generate_fallback_app L request),
               logger INFO ''AIPipe not configured, using fallback application'' w0)
         else
           (case generate_try L request w0 of
              (Inr app_files, w1) \<Rightarrow> (Inr app_files, w1)
            | (Inl CancelledError, w1) \<Rightarrow> (Inl CancelledError, w1)
            | (Inl e, w1) \<Rightarrow>
                (Inr (generate_fallback_app L request),
                 logger WARNING
                   (''AIPipe connection failed: '' @ str_exc e @ '', using fallback application'') w1)))"

section \<open>Repository Publisher\<close>

subsection \<open>The hosting service\<close>

text \<open>
  The calls of PyGithub that \<open>app.py\<close> makes, on the repositories held in the world. A
  repository object is its full name. A read of a missing repository or file and a
  second creation of a file raise \<open>GithubException\<close>, and so does a write without a
  token.
\<close>

definition authed :: "string option \<Rightarrow> bool" where
  "authed tok = (case tok of None \<Rightarrow> False | Some t \<Rightarrow> t \<noteq> [])"

definition create_repo :: "string \<Rightarrow> string \<Rightarrow> world \<Rightarrow> (exc + string) \<times> world" where
  "create_repo owner repo_name w =
     (let full = owner @ ''/'' @ repo_name
      in case github w full of
           Some r \<Rightarrow> (Inl (GithubException ''422 name already exists on this account''), w)
         | None \<Rightarrow>
             (Inr full,
              w\<lparr>github := (github w)(full \<mapsto>
                   \<lparr>html_url = ''https://github.com/'' @ full, files = Map.empty, commits = 0\<rparr>)\<rparr>))"

definition get_repo :: "string \<Rightarrow> world \<Rightarrow> exc + string" where
  "get_repo full w =
     (case github w full of
        None \<Rightarrow> Inl (GithubException ''404 Not Found'')
      | Some r \<Rightarrow> Inr full)"

definition repo_html_url :: "string \<Rightarrow> world \<Rightarrow> string" where
  "repo_html_url full w = (case github w full of None \<Rightarrow> [] | Some r \<Rightarrow> html_url r)"

definition get_contents :: "string \<Rightarrow> string \<Rightarrow> world \<Rightarrow> exc + string" where
  "get_contents full path w =
     (case github w full of
        None \<Rightarrow> Inl (GithubException ''404 Not Found'')
      | Some r \<Rightarrow>
          (case files r (''main'', path) of
             None \<Rightarrow> Inl (GithubException ''404 Not Found'')
           | Some c \<Rightarrow> Inr c))"

definition create_file ::
  "string option \<Rightarrow> string \<Rightarrow> string \<Rightarrow> string \<Rightarrow> string \<Rightarrow> world \<Rightarrow> (exc + unit) \<times> world" where
  "create_file tok full path content branch w =
     (case github w full of
        None \<Rightarrow> (Inl (GithubException ''404 Not Found''), w)
      | Some r \<Rightarrow>
          if \<not> authed tok then (Inl (GithubException ''401 Requires authentication''), w)
          else if files r (branch, path) \<noteq> None
            then (Inl (GithubException ''422 Invalid request: sha was not supplied''), w)
          else
            (Inr (),
             w\<lparr>github := (github w)(full \<mapsto>
                  r\<lparr>files := (files r)((branch, path) \<mapsto> content), commits := Suc (commits r)\<rparr>)\<rparr>))"

definition update_file ::
  "string option \<Rightarrow> string \<Rightarrow> string \<Rightarrow> string \<Rightarrow> string \<Rightarrow> world \<Rightarrow> (exc + unit) \<times> world" where
  "update_file tok full path content branch w =
     (case github w full of
        None \<Rightarrow> (Inl (GithubException ''404 Not Found''), w)
      | Some r \<Rightarrow>
          if \<not> authed tok then (Inl (GithubException ''401 Requires authentication''), w)
          else if files r (branch, path) = None
            then (Inl (GithubException ''404 Not Found''), w)
          else
            (Inr (),
             w\<lparr>github := (github w)(full \<mapsto>
                  r\<lparr>files := (files r)((branch, path) \<mapsto> content), commits := Suc (commits r)\<rparr>)\<rparr>))"

definition latest_commit_sha :: "lib \<Rightarrow> string \<Rightarrow> world \<Rightarrow> exc + string" where
  "latest_commit_sha L full w =
     (case github w full of
        None \<Rightarrow> Inl (GithubException ''404 Not Found'')
      | Some r \<Rightarrow>
          if commits r = 0 then Inl (GithubException ''409 Git Repository is empty'')
          else Inr (commit_sha_of L full (commits r)))"

subsection \<open>\<open>create_github_repository\<close>\<close>

definition generate_repo_name :: "lib \<Rightarrow> string \<Rightarrow> int \<Rightarrow> world \<Rightarrow> string" where
  "generate_repo_name L task_id round_num w =
     (let clean_task = map (\<lambda>c. if is_name_char c then c else CHR ''-'') (lower task_id);
          clean_task = strip_chars (\<lambda>c. c = CHR ''-'') (squeeze_dashes clean_task);
          task_hash =
            take 8 (md5_hexdigest L
                      (task_id @ ''-'' @ str_int round_num @ ''-'' @ isoformat L (now w)))
      in take 100 (clean_task @ ''-'' @ task_hash))"

record repo_info =
  repo_url :: string
  commit_sha :: string
  pages_url :: string

text \<open>The loop \<open>for filename, content in files.items()\<close>.\<close>

fun create_files :: "string option \<Rightarrow> string \<Rightarrow> artifacts \<Rightarrow> world \<Rightarrow> (exc + unit) \<times> world" where
  "create_files tok full [] w = (Inr (), w)"
| "create_files tok full ((filename, content) # rest) w =
     (case create_file tok full filename content ''main'' w of
        (Inl e, w1) \<Rightarrow> (Inl e, w1)
      | (Inr u, w1) \<Rightarrow> create_files tok full rest (logger INFO (''File created: '' @ filename) w1))"

text \<open>
  After the loop the variable \<open>content\<close> still holds the content of the last file; it
  is unbound when there was no file.
\<close>

definition loop_content :: "artifacts \<Rightarrow> string option" where
  "loop_content fs = (if fs = [] then None else Some (snd (last fs)))"

definition create_page_file ::
  "string option \<Rightarrow> string \<Rightarrow> string \<Rightarrow> string option \<Rightarrow> string \<Rightarrow> world \<Rightarrow> (exc + unit) \<times> world" where
  "create_page_file tok full path content branch w =
     (case content of
        None \<Rightarrow> (Inl (Exception ''UnboundLocalError''), w)
      | Some c \<Rightarrow> create_file tok full path c branch w)"

text \<open>The three nested \<open>try\<close> blocks that enable the served page; none of them raises.\<close>

definition enable_pages :: "string option \<Rightarrow> string \<Rightarrow> string option \<Rightarrow> world \<Rightarrow> world" where
  "enable_pages tok full content w =
     (case create_page_file tok full ''docs/index.html'' content ''main'' w of
        (Inr u, w1) \<Rightarrow> logger INFO ''GitHub Pages enabled via docs/ folder'' w1
      | (Inl e, w1) \<Rightarrow>
          (case create_page_file tok full ''index.html'' content ''gh-pages''
                  (logger WARNING (''GitHub Pages docs method failed: '' @ str_exc e) w1) of
             (Inr u, w2) \<Rightarrow> logger INFO ''GitHub Pages enabled via gh-pages branch'' w2
           | (Inl e2, w2) \<Rightarrow>
               (case create_file tok full ''.nojekyll'' [] ''main''
                       (logger WARNING (''GitHub Pages gh-pages method failed: '' @ str_exc e2) w2) of
                  (Inr u, w3) \<Rightarrow> logger INFO ''Added .nojekyll file for GitHub Pages'' w3
                | (Inl e3, w3) \<Rightarrow>
                    logger WARNING (''Could not add .nojekyll: '' @ str_exc e3) w3)))"

definition create_try ::
  "CONFIG \<Rightarrow> lib \<Rightarrow> TaskRequest \<Rightarrow> artifacts \<Rightarrow> world \<Rightarrow> (exc + repo_info) \<times> world" where
  "create_try C L request fs w =
     (if \<not> authed (GITHUB_TOKEN C) then (Inl (Exception ''GitHub token not configured''), w)
      else
        let w1 = github_block
                   (logger INFO (''Creating GitHub repository for task: '' @ task request) w);
            repo_name = generate_repo_name L (task request) (round request) w1;
            w2 = logger INFO (''Repository name: '' @ repo_name) w1
        in (case create_repo (login C) repo_name w2 of
              (Inl e, w3) \<Rightarrow> (Inl e, w3)
            | (Inr full, w3) \<Rightarrow>
                (case create_files (GITHUB_TOKEN C) full fs
                        (logger INFO (''Repository created: '' @ repo_html_url full w3) w3) of
                   (Inl e, w4) \<Rightarrow> (Inl e, w4)
                 | (Inr u, w4) \<Rightarrow>
                     (case asyncio_sleep 3
                             (enable_pages (GITHUB_TOKEN C) full (loop_content fs)
                                (logger INFO ''Enabling GitHub Pages...'' w4)) of
                        (Inl e, w5) \<Rightarrow> (Inl e, w5)
                      | (Inr u, w5) \<Rightarrow>
                          let w6 = github_block w5
                          in (case latest_commit_sha L full w6 of
                                Inl e \<Rightarrow> (Inl e, w6)
                              | Inr sha \<Rightarrow>
                                  let pages = ''https://'' @ login C @ ''.github.io/'' @ repo_name;
                                      w7 = logger INFO (''Repository setup complete: '' @ repo_html_url full w6) w6;
                                      w8 = logger INFO (''Pages URL: '' @ pages) w7
                                  in (Inr \<lparr>repo_url = repo_html_url full w6, commit_sha = sha,
                                           pages_url = pages\<rparr>, w8))))))"

definition create_github_repository ::
  "CONFIG \<Rightarrow> lib \<Rightarrow> TaskRequest \<Rightarrow> artifacts \<Rightarrow> world \<Rightarrow> (exc + repo_info) \<times> world" where
  "create_github_repository C L request fs w =
     (case create_try C L request fs (emit (Call ''create_github_repository'') w) of
        (Inr info, w1) \<Rightarrow> (Inr info, w1)
      | (Inl (GithubException m), w1) \<Rightarrow>
          (Inl (Exception (''GitHub operation failed: '' @ m)),
           logger ERROR (''GitHub API error: '' @ m) w1)
      | (Inl CancelledError, w1) \<Rightarrow> (Inl CancelledError, w1)
      | (Inl e, w1) \<Rightarrow>
          (Inl (Exception (''Failed to create repository: '' @ str_exc e)),
           logger ERROR (''Unexpected error creating repo: '' @ str_exc e) w1))"

subsection \<open>\<open>update_github_repository\<close>\<close>

text \<open>\<open>xs[-k]\<close> for \<open>k = 1, 2\<close>.\<close>

definition item_from_end :: "'a list \<Rightarrow> nat \<Rightarrow> exc + 'a" where
  "item_from_end xs k =
     (if 0 < k \<and> k \<le> length xs then Inr (xs ! (length xs - k))
      else Inl (Exception ''IndexError''))"

text \<open>
  The loop \<open>for filename, new_content in files.items()\<close>: update the file when
  \<open>get_contents\<close> finds it; on \<open>GithubException\<close> create it.
\<close>

definition update_existing ::
  "string option \<Rightarrow> string \<Rightarrow> string \<Rightarrow> string \<Rightarrow> world \<Rightarrow> (exc + unit) \<times> world" where
  "update_existing tok full filename new_content w =
     (case get_contents full filename w of
        Inl e \<Rightarrow> (Inl e, w)
      | Inr existing_file \<Rightarrow>
          (case update_file tok full filename new_content ''main'' w of
             (Inl e, w1) \<Rightarrow> (Inl e, w1)
           | (Inr u, w1) \<Rightarrow> (Inr (), logger INFO (''Updated file: '' @ filename) w1)))"

fun update_files :: "string option \<Rightarrow> string \<Rightarrow> artifacts \<Rightarrow> world \<Rightarrow> (exc + unit) \<times> world" where
  "update_files tok full [] w = (Inr (), w)"
| "update_files tok full ((filename, new_content) # rest) w =
     (case update_existing tok full filename new_content w of
        (Inr u, w1) \<Rightarrow> update_files tok full rest w1
      | (Inl (GithubException m), w1) \<Rightarrow>
          (case create_file tok full filename new_content ''main'' w1 of
             (Inl e, w2) \<Rightarrow> (Inl e, w2)
           | (Inr u, w2) \<Rightarrow>
               update_files tok full rest (logger INFO (''Created new file: '' @ filename) w2))
      | (Inl e, w1) \<Rightarrow> (Inl e, w1))"

definition update_try ::
  "CONFIG \<Rightarrow> lib \<Rightarrow> TaskRequest \<Rightarrow> artifacts \<Rightarrow> world \<Rightarrow> (exc + repo_info) \<times> world" where
  "update_try C L request fs w =
     (let w1 = logger INFO (''Updating GitHub repository for task: '' @ task request) w
      in (case tasks w1 (task request) of
            None \<Rightarrow> (Inl (Exception ''KeyError''), w1)
          | Some d \<Rightarrow>
              (case item_from_end (split (r1_repo_url d) ''/'') 1 of
                 Inl e \<Rightarrow> (Inl e, w1)
               | Inr repo_name \<Rightarrow>
                   (case item_from_end (split (r1_repo_url d) ''/'') 2 of
                      Inl e \<Rightarrow> (Inl e, w1)
                    | Inr username \<Rightarrow>
                        let w2 = github_block w1
                        in (case get_repo (username @ ''/'' @ repo_name) w2 of
                              Inl e \<Rightarrow> (Inl e, w2)
                            | Inr full \<Rightarrow>
                                (case update_files (GITHUB_TOKEN C) full fs
                                        (logger INFO (''Found existing repository: '' @ repo_html_url full w2) w2) of
                                   (Inl e, w3) \<Rightarrow> (Inl e, w3)
                                 | (Inr u, w3) \<Rightarrow>
                                     (case latest_commit_sha L full w3 of
                                        Inl e \<Rightarrow> (Inl e, w3)
                                      | Inr sha \<Rightarrow>
                                          (Inr \<lparr>repo_url = repo_html_url full w3, commit_sha = sha,
                                                pages_url = ''https://'' @ username @ ''.github.io/'' @ repo_name\<rparr>,
                                           w3))))))))"

definition update_github_repository ::
  "CONFIG \<Rightarrow> lib \<Rightarrow> TaskRequest \<Rightarrow> artifacts \<Rightarrow> world \<Rightarrow> (exc + repo_info) \<times> world" where
  "update_github_repository C L request fs w =
     (case update_try C L request fs (emit (Call ''update_github_repository'') w) of
        (Inr info, w1) \<Rightarrow> (Inr info, w1)
      | (Inl e, w1) \<Rightarrow>
          (Inl (Exception (''Failed to update repository: '' @ str_exc e)),
           logger ERROR (''GitHub update failed: '' @ str_exc e) w1))"

subsection \<open>\<open>get_existing_code_from_github\<close>\<close>

definition get_existing_try :: "string \<Rightarrow> world \<Rightarrow> (exc + artifacts) \<times> world" where
  "get_existing_try url_text w =
     (case item_from_end (split url_text ''/'') 1 of
        Inl e \<Rightarrow> (Inl e, w)
      | Inr repo_name \<Rightarrow>
          (case item_from_end (split url_text ''/'') 2 of
             Inl e \<Rightarrow> (Inl e, w)
           | Inr username \<Rightarrow>
               let w1 = github_block w
               in (case get_repo (username @ ''/'' @ repo_name) w1 of
                     Inl e \<Rightarrow> (Inl e, w1)
                   | Inr full \<Rightarrow>
                       (case get_contents full ''index.html'' w1 of
                          Inl e \<Rightarrow> (Inr [], logger WARNING ''index.html not found in repository'' w1)
                        | Inr html_content \<Rightarrow> (Inr [(''index.html'', html_content)], w1)))))"

definition get_existing_code_from_github :: "string \<Rightarrow> world \<Rightarrow> artifacts \<times> world" where
  "get_existing_code_from_github url_text w =
     (case get_existing_try url_text (emit (Call ''get_existing_code_from_github'') w) of
        (Inr fs, w1) \<Rightarrow> (fs, w1)
      | (Inl e, w1) \<Rightarrow> ([], logger ERROR (''Failed to get existing code: '' @ str_exc e) w1))"

section \<open>Round 2 of the Content Generator: \<open>modify_existing_app\<close>\<close>

definition modified_html :: "lib \<Rightarrow> json \<Rightarrow> exc + string" where
  "modified_html L result =
     (case py_in ''output'' result of
        Inl e \<Rightarrow> Inl e
      | Inr True \<Rightarrow>
          (case py_getitem result ''output'' of
             Inl e \<Rightarrow> Inl e
           | Inr out \<Rightarrow> extract_html_code L out)
      | Inr False \<Rightarrow>
          (case has_choices result of
             Inl e \<Rightarrow> Inl e
           | Inr True \<Rightarrow>
               (case first_choice_content result of
                  Inl e \<Rightarrow> Inl e
                | Inr c \<Rightarrow> extract_html_code L c)
           | Inr False \<Rightarrow> extract_html_code L (JStr (to_str L result))))"

definition modify_try ::
  "lib \<Rightarrow> TaskRequest \<Rightarrow> round1_data \<Rightarrow> world \<Rightarrow> (exc + artifacts) \<times> world" where
  "modify_try L request d w =
     (case post_ai w of
        (Inl e, w1) \<Rightarrow> (Inl e, w1)
      | (Inr (Net_error m), w1) \<Rightarrow> (Inl (Exception m), w1)
      | (Inr (Http status text body), w1) \<Rightarrow>
          if status \<noteq> 200 then
            (Inl (Exception ''AIPipe API request failed''),
             logger ERROR (''AIPipe API error: '' @ str_nat status @ '' - '' @ text) w1)
          else
            (case body of
               None \<Rightarrow> (Inl (Exception ''JSONDecodeError''), w1)
             | Some result \<Rightarrow>
                 (case modified_html L result of
                    Inl e \<Rightarrow> (Inl e, w1)
                  | Inr updated_html \<Rightarrow>
                      (Inr [(''index.html'', updated_html),
                            (''README.md'',
                             generate_updated_readme (r1_brief d) (brief request) (task request))],
                       w1))))"

definition modify_existing_app ::
  "lib \<Rightarrow> TaskRequest \<Rightarrow> round1_data \<Rightarrow> world \<Rightarrow> (exc + artifacts) \<times> world" where
  "modify_existing_app L request d w =
     (case get_existing_code_from_github (r1_repo_url d) (emit (Call ''modify_existing_app'') w) of
        (existing_code, w1) \<Rightarrow>
          (case modify_try L request d w1 of
             (Inr fs, w2) \<Rightarrow> (Inr fs, w2)
           | (Inl CancelledError, w2) \<Rightarrow> (Inl CancelledError, w2)
           | (Inl e, w2) \<Rightarrow>
               (Inl (Exception (''Failed to modify application: '' @ str_exc e)),
                logger ERROR (''AIPipe modification failed: '' @ str_exc e) w2)))"

section \<open>Notifier: \<open>send_evaluation\<close>\<close>

text \<open>
  One pass of the body of \<open>for attempt in range(3)\<close> up to the \<open>if attempt < 2\<close>:
  \<open>Inr True\<close> is the \<open>return\<close> after status 200, \<open>Inr False\<close> a failed attempt
  (another status, or an exception caught by \<open>except Exception\<close>).
\<close>

definition one_attempt ::
  "nat \<Rightarrow> TaskResponse \<Rightarrow> string \<Rightarrow> world \<Rightarrow> (exc + bool) \<times> world" where
  "one_attempt attempt response eval_url w =
     (case post_callback eval_url response w of
        (Inl e, w1) \<Rightarrow> (Inl e, w1)
      | (Inr (Http status text body), w1) \<Rightarrow>
          if status = 200
          then (Inr True,
                logger INFO (''Evaluation notification sent successfully to '' @ eval_url) w1)
          else (Inr False, logger WARNING (''Evaluation server returned '' @ str_nat status) w1)
      | (Inr (Net_error m), w1) \<Rightarrow>
          (Inr False,
           logger WARNING (''Attempt '' @ str_nat (attempt + 1) @ '' failed: '' @ m) w1))"

definition retry_delay :: "nat \<Rightarrow> world \<Rightarrow> (exc + unit) \<times> world" where
  "retry_delay attempt w =
     (if attempt < 2 then asyncio_sleep 1 (logger INFO ''Retrying in 1 second...'' w)
      else (Inr (), w))"

fun send_attempts ::
  "nat list \<Rightarrow> TaskResponse \<Rightarrow> string \<Rightarrow> world \<Rightarrow> (exc + unit) \<times> world" where
  "send_attempts [] response eval_url w =
     (Inr (), logger ERROR ''Failed to send evaluation notification after all retries'' w)"
| "send_attempts (attempt # rest) response eval_url w =
     (case one_attempt attempt response eval_url w of
        (Inl e, w1) \<Rightarrow> (Inl e, w1)
      | (Inr True, w1) \<Rightarrow> (Inr (), w1)
      | (Inr False, w1) \<Rightarrow>
          (case retry_delay attempt w1 of
             (Inl e, w2) \<Rightarrow> (Inl e, w2)
           | (Inr u, w2) \<Rightarrow> send_attempts rest response eval_url w2))"

definition send_evaluation :: "TaskResponse \<Rightarrow> string \<Rightarrow> world \<Rightarrow> (exc + unit) \<times> world" where
  "send_evaluation response eval_url w =
     send_attempts [0, 1, 2] response eval_url
       (logger INFO (''Sending evaluation notification to: '' @ eval_url)
          (emit (Call ''send_evaluation'') w))"

section \<open>Orchestrator\<close>

definition process_round1 :: "CONFIG \<Rightarrow> lib \<Rightarrow> TaskRequest \<Rightarrow> world \<Rightarrow> (exc + unit) \<times> world" where
  "process_round1 C L request w =
     (case generate_app_with_ai C L request
             (logger INFO (''Processing Round 1 for task: '' @ task request)
                (emit (Call ''process_round1'') w)) of
        (Inl e, w1) \<Rightarrow> (Inl e, w1)
      | (Inr app_files, w1) \<Rightarrow>
          (case create_github_repository C L request app_files w1 of
             (Inl e, w2) \<Rightarrow> (Inl e, w2)
           | (Inr info, w2) \<Rightarrow>
               send_evaluation
                 \<lparr>resp_email = email request, resp_task = task request, resp_round = 1,
                  resp_nonce = nonce request, resp_repo_url = repo_url info,
                  resp_commit_sha = commit_sha info, resp_pages_url = pages_url info\<rparr>
                 (evaluation_url request)
                 (w2\<lparr>tasks := (tasks w2)(task request \<mapsto>
                       \<lparr>r1_repo_url = repo_url info, r1_email = email request,
                        r1_brief = brief request\<rparr>)\<rparr>)))"

definition process_round2 :: "CONFIG \<Rightarrow> lib \<Rightarrow> TaskRequest \<Rightarrow> world \<Rightarrow> (exc + unit) \<times> world" where
  "process_round2 C L request w =
     (let w0 = logger INFO (''Processing Round 2 for task: '' @ task request)
                 (emit (Call ''process_round2'') w)
      in (case tasks w0 (task request) of
            None \<Rightarrow> (Inl (Exception ''No Round 1 data found for this task''), w0)
          | Some d \<Rightarrow>
              (case modify_existing_app L request d w0 of
                 (Inl e, w1) \<Rightarrow> (Inl e, w1)
               | (Inr updated_files, w1) \<Rightarrow>
                   (case update_github_repository C L request updated_files w1 of
                      (Inl e, w2) \<Rightarrow> (Inl e, w2)
                    | (Inr info, w2) \<Rightarrow>
                        send_evaluation
                          \<lparr>resp_email = email request, resp_task = task request, resp_round = 2,
                           resp_nonce = nonce request, resp_repo_url = repo_url info,
                           resp_commit_sha = commit_sha info, resp_pages_url = pages_url info\<rparr>
                          (evaluation_url request) w2))))"

text \<open>
  \<open>asyncio.wait_for(coro, timeout)\<close>: the coroutine runs with the deadline
  \<open>now + timeout\<close>; its cancellation comes out as \<open>TimeoutError\<close>.
\<close>

definition wait_for ::
  "(world \<Rightarrow> (exc + 'a) \<times> world) \<Rightarrow> nat \<Rightarrow> world \<Rightarrow> (exc + 'a) \<times> world" where
  "wait_for coro timeout w =
     (case coro (w\<lparr>deadline := Some (now w + timeout)\<rparr>) of
        (Inl CancelledError, w1) \<Rightarrow> (Inl TimeoutError, w1\<lparr>deadline := deadline w\<rparr>)
      | (r, w1) \<Rightarrow> (r, w1\<lparr>deadline := deadline w\<rparr>))"

definition process_task_with_deadline ::
  "CONFIG \<Rightarrow> lib \<Rightarrow> TaskRequest \<Rightarrow> world \<Rightarrow> (exc + unit) \<times> world" where
  "process_task_with_deadline C L request w =
     (let start_time = now w;
          w0 = logger INFO
                 (''Starting background processing with '' @ str_nat MAX_PROCESSING_TIME @ ''s deadline'')
                 (emit (Call ''process_task_with_deadline'') w)
      in (case (if round request = 1
                then wait_for (process_round1 C L request) TASK_TIMEOUT w0
                else wait_for (process_round2 C L request) TASK_TIMEOUT w0) of
            (Inl TimeoutError, w1) \<Rightarrow>
              (Inr (),
               logger ERROR (''TIMEOUT: Task exceeded '' @ str_nat TASK_TIMEOUT @ ''s limit!'') w1)
          | (Inl CancelledError, w1) \<Rightarrow> (Inl CancelledError, w1)
          | (Inl e, w1) \<Rightarrow>
              (Inr (), logger ERROR (''Task processing failed: '' @ str_exc e) w1)
          | (Inr u, w1) \<Rightarrow>
              let w2 = logger INFO
                         (''Task completed in '' @ str_nat (now w1 - start_time) @ ''.0s'') w1;
                  total_time = now w2 - start_time
              in if total_time > MAX_PROCESSING_TIME
                 then (Inr (),
                       logger ERROR
                         (''DEADLINE MISSED: Total time '' @ str_nat total_time @ ''.0s > ''
                            @ str_nat MAX_PROCESSING_TIME @ ''s'') w2)
                 else (Inr (), w2)))"

text \<open>
  \<open>store_received_task\<close>: \<open>app.py\<close> does not import \<open>sqlite3\<close>, so the body of its
  \<open>try\<close> raises \<open>NameError\<close> at \<open>sqlite3.connect\<close>, which \<open>except Exception\<close> turns
  into a warning.
\<close>

definition store_received_task :: "TaskRequest \<Rightarrow> world \<Rightarrow> world" where
  "store_received_task request w =
     logger WARNING
       (''Failed to store task in database: name '' @ [CHR 0x27] @ ''sqlite3'' @ [CHR 0x27]
          @ '' is not defined'')
       (emit (Call ''store_received_task'') w)"

datatype http_error = HTTPException nat string

text \<open>
  \<open>handle_task\<close>. \<open>background_tasks\<close> is the list of requests for which
  \<open>process_task_with_deadline\<close> has been added; the dictionary returned is a JSON
  object.
\<close>

definition handle_task ::
  "CONFIG \<Rightarrow> TaskRequest \<Rightarrow> TaskRequest list \<Rightarrow> world
     \<Rightarrow> (http_error + (string \<times> json) list) \<times> TaskRequest list \<times> world" where
  "handle_task C request background_tasks w =
     (let w1 = logger INFO
                 (''Received task: '' @ task request @ '', Round: '' @ str_int (round request))
                 (emit (Call ''handle_task'') w)
      in if secret request \<noteq> SECRET C
         then (Inl (HTTPException 401 ''Invalid secret''), background_tasks,
               logger WARNING (''Invalid secret attempt: '' @ secret request) w1)
         else
           let w2 = store_received_task request w1;
               w3 = logger INFO ''Immediate 200 OK sent, processing in background'' w2
           in (Inr [(''status'', JStr ''accepted''),
                    (''message'', JStr (''Round '' @ str_int (round request) @ '' processing started'')),
                    (''task'', JStr (task request)),
                    (''round'', JNum (round request))],
               background_tasks @ [request], w3))"

text \<open>
  The route \<open>@app.post("/api/task")\<close>: the framework calls \<open>handle_task\<close> with an
  empty \<open>BackgroundTasks\<close>, sends the response, and only then runs the tasks that were
  added; after an \<open>HTTPException\<close> it sends the error response and runs none.
\<close>

fun run_background :: "CONFIG \<Rightarrow> lib \<Rightarrow> TaskRequest list \<Rightarrow> world \<Rightarrow> world" where
  "run_background C L [] w = w"
| "run_background C L (request # rest) w =
     run_background C L rest (snd (process_task_with_deadline C L request w))"

definition post_api_task ::
  "CONFIG \<Rightarrow> lib \<Rightarrow> TaskRequest \<Rightarrow> world \<Rightarrow> (http_error + (string \<times> json) list) \<times> world" where
  "post_api_task C L request w =
     (case handle_task C request [] w of
        (Inl (HTTPException code detail), background_tasks, w1) \<Rightarrow>
          (Inl (HTTPException code detail), emit (Response_sent code) w1)
      | (Inr body, background_tasks, w1) \<Rightarrow>
          (Inr body, run_background C L background_tasks (emit (Response_sent 200) w1)))"

section \<open>Reading a trace\<close>

definition is_call :: "string \<Rightarrow> event \<Rightarrow> bool" where
  "is_call f e = (e = Call f)"

fun is_post_callback :: "event \<Rightarrow> bool" where
  "is_post_callback (Post_callback u r) = True"
| "is_post_callback e = False"

text \<open>Calls of the Content Generator, of the Repository Publisher and of the Notifier.\<close>

definition generator_call :: "event \<Rightarrow> bool" where
  "generator_call e = (e = Call ''generate_app_with_ai'' \<or> e = Call ''modify_existing_app'' \<or> e = Post_ai)"

definition publisher_call :: "event \<Rightarrow> bool" where
  "publisher_call e =
     (e = Call ''create_github_repository'' \<or> e = Call ''update_github_repository'')"

definition notifier_call :: "event \<Rightarrow> bool" where
  "notifier_call e = (e = Call ''send_evaluation'' \<or> is_post_callback e)"

text \<open>The events that a step from world \<open>w\<close> to world \<open>w'\<close> added to the trace.\<close>

definition new_events :: "world \<Rightarrow> world \<Rightarrow> event list" where
  "new_events w w' = map snd (drop (length (trace w)) (trace w'))"

text \<open>
  \<open>since tr P w\<close>: the trace of \<open>w\<close> is \<open>tr\<close> followed by entries (time and event)
  that all satisfy \<open>P\<close>.
\<close>

definition since :: "(nat \<times> event) list \<Rightarrow> (nat \<times> event \<Rightarrow> bool) \<Rightarrow> world \<Rightarrow> bool" where
  "since tr P w = (\<exists>es. trace w = tr @ es \<and> list_all P es)"

definition nonpost_ok :: "(nat \<times> event \<Rightarrow> bool) \<Rightarrow> bool" where
  "nonpost_ok P = (\<forall>t e. \<not> is_post_callback e \<longrightarrow> P (t, e))"

section \<open>Sample inputs\<close>

text \<open>
  Concrete inputs on which the theorems below are exercised. The library parameters of
  \<open>sample_lib\<close> are stand-ins with the right types.
\<close>

definition sample_config :: CONFIG where
  "sample_config =
     \<lparr>SECRET = ''hvk1995'', GITHUB_TOKEN = Some ''token'', AIPIPE_API_KEY = None,
      login = ''harshvk25''\<rparr>"

definition sample_lib :: lib where
  "sample_lib =
     \<lparr>md5_hexdigest = (\<lambda>s. ''9e107d9d372bb6826bd81d3542a419d6''),
      isoformat = str_nat,
      str_json = (\<lambda>v. ''{}''),
      commit_sha_of = (\<lambda>full n. str_nat n),
      CALCULATOR_HTML = ''<html>calculator</html>'',
      CAPTCHA_HTML = ''<html>captcha</html>'',
      MARKDOWN_HTML = ''<html>markdown</html>''\<rparr>"

definition sample_request :: TaskRequest where
  "sample_request =
     \<lparr>email = ''a@b.c'', secret = ''hvk1995'', task = ''t1'', round = 1, nonce = ''n1'',
      brief = ''build a calculator'', checks = [''has title''],
      evaluation_url = ''http://eval/notify'', attachments = []\<rparr>"

definition sample_world :: world where
  "sample_world =
     \<lparr>tasks = Map.empty, github = Map.empty, now = 0, deadline = None, trace = [],
      ai_replies = [], cb_replies = [], gh_delays = []\<rparr>"

section \<open>Basic facts about traces and frames\<close>

lemma since_refl: "since (trace w) P w"
  by (simp add: since_def)

lemma since_updates [simp]:
  "since tr P (w\<lparr>now := n\<rparr>) = since tr P w"
  "since tr P (w\<lparr>cb_replies := c\<rparr>) = since tr P w"
  "since tr P (w\<lparr>ai_replies := a\<rparr>) = since tr P w"
  "since tr P (w\<lparr>gh_delays := g\<rparr>) = since tr P w"
  "since tr P (w\<lparr>github := h\<rparr>) = since tr P w"
  "since tr P (w\<lparr>tasks := k\<rparr>) = since tr P w"
  "since tr P (w\<lparr>deadline := d\<rparr>) = since tr P w"
  by (simp_all add: since_def)

lemma since_emit: "since tr P w \<Longrightarrow> P (now w, e) \<Longrightarrow> since tr P (emit e w)"
  by (auto simp: since_def emit_def)

lemma since_logger: "since tr P w \<Longrightarrow> nonpost_ok P \<Longrightarrow> since tr P (logger l m w)"
  by (simp add: logger_def nonpost_ok_def since_emit)

lemma since_call: "since tr P w \<Longrightarrow> nonpost_ok P \<Longrightarrow> since tr P (emit (Call f) w)"
  by (simp add: nonpost_ok_def since_emit)

lemma since_mono: "since tr P w \<Longrightarrow> (\<And>x. P x \<Longrightarrow> Q x) \<Longrightarrow> since tr Q w"
  by (auto simp: since_def list_all_iff)

lemma since_github_block [simp]: "since tr P (github_block w) = since tr P w"
  by (simp add: github_block_def split: list.splits)

lemma github_block_fields [simp]:
  "tasks (github_block w) = tasks w" "deadline (github_block w) = deadline w"
  "github (github_block w) = github w" "trace (github_block w) = trace w"
  by (simp_all add: github_block_def split: list.splits)

lemma emit_fields [simp]:
  "tasks (emit e w) = tasks w" "deadline (emit e w) = deadline w" "now (emit e w) = now w"
  "github (emit e w) = github w" "cb_replies (emit e w) = cb_replies w"
  "ai_replies (emit e w) = ai_replies w" "gh_delays (emit e w) = gh_delays w"
  by (simp_all add: emit_def)

lemma logger_fields [simp]:
  "tasks (logger l m w) = tasks w" "deadline (logger l m w) = deadline w"
  "now (logger l m w) = now w" "github (logger l m w) = github w"
  "cb_replies (logger l m w) = cb_replies w" "ai_replies (logger l m w) = ai_replies w"
  "gh_delays (logger l m w) = gh_delays w"
  by (simp_all add: logger_def)

lemma suspend_fields [simp]:
  "tasks (snd (suspend d w)) = tasks w" "deadline (snd (suspend d w)) = deadline w"
  "github (snd (suspend d w)) = github w" "trace (snd (suspend d w)) = trace w"
  by (simp_all add: suspend_def split: option.splits)

lemma since_suspend [simp]: "since tr P (snd (suspend d w)) = since tr P w"
  by (simp add: since_def)

lemma asyncio_sleep_fields [simp]:
  "tasks (snd (asyncio_sleep d w)) = tasks w" "deadline (snd (asyncio_sleep d w)) = deadline w"
  "github (snd (asyncio_sleep d w)) = github w"
  by (simp_all add: asyncio_sleep_def suspend_def split: option.splits)

lemma asyncio_sleep_since:
  "since tr P w \<Longrightarrow> nonpost_ok P \<Longrightarrow> since tr P (snd (asyncio_sleep d w))"
  by (simp add: asyncio_sleep_def suspend_def since_emit nonpost_ok_def split: option.splits)

lemma post_ai_fields [simp]:
  "tasks (snd (post_ai w)) = tasks w" "deadline (snd (post_ai w)) = deadline w"
  "github (snd (post_ai w)) = github w"
  by (simp_all add: post_ai_def suspend_def Let_def split: option.splits list.splits prod.splits)

lemma post_ai_since:
  "since tr P w \<Longrightarrow> nonpost_ok P \<Longrightarrow> since tr P (snd (post_ai w))"
  by (simp add: post_ai_def suspend_def Let_def since_emit nonpost_ok_def
      split: option.splits list.splits prod.splits)

lemma str_int_small: "str_int 1 = ''1''" "str_int 2 = ''2''" "str_int 0 = ''0''"
  by code_simp+

section \<open>The request path\<close>

text \<open>
  C7. A submission whose \<open>secret\<close> differs from the configured one is rejected by
  \<open>handle_task\<close> itself with \<open>HTTPException(401, "Invalid secret")\<close>. Nothing is added
  to the background tasks, \<open>store_received_task\<close> is not reached, the \<open>tasks\<close>
  dictionary and the hosted repositories are unchanged, and the whole route adds to the
  trace only the entry into \<open>handle_task\<close>, its two log lines and the 401 response: no
  pipeline, generator, publisher or notifier call.
\<close>

theorem handle_task_rejects_bad_secret:
  assumes "secret request \<noteq> SECRET C"
  shows "fst (handle_task C request bg w) = Inl (HTTPException 401 ''Invalid secret'')
       \<and> fst (snd (handle_task C request bg w)) = bg
       \<and> tasks (snd (snd (handle_task C request bg w))) = tasks w
       \<and> github (snd (snd (handle_task C request bg w))) = github w
       \<and> fst (post_api_task C L request w) = Inl (HTTPException 401 ''Invalid secret'')
       \<and> tasks (snd (post_api_task C L request w)) = tasks w
       \<and> github (snd (post_api_task C L request w)) = github w
       \<and> new_events w (snd (post_api_task C L request w)) =
           [Call ''handle_task'',
            Log INFO (''Received task: '' @ task request @ '', Round: '' @ str_int (round request)),
            Log WARNING (''Invalid secret attempt: '' @ secret request),
            Response_sent 401]"
  using assms
  by (simp add: post_api_task_def handle_task_def Let_def new_events_def logger_def emit_def)

theorem handle_task_rejects_bad_secret_witness:
  "secret (sample_request\<lparr>secret := ''guess''\<rparr>) \<noteq> SECRET sample_config
   \<and> fst (post_api_task sample_config sample_lib (sample_request\<lparr>secret := ''guess''\<rparr>) sample_world)
       = Inl (HTTPException 401 ''Invalid secret'')
   \<and> fst (snd (handle_task sample_config (sample_request\<lparr>secret := ''guess''\<rparr>) [] sample_world)) = []"
  using handle_task_rejects_bad_secret
          [of "sample_request\<lparr>secret := ''guess''\<rparr>" sample_config "[]" sample_world sample_lib]
  by (simp add: sample_request_def sample_config_def)

text \<open>
  C1. For a submission with the configured secret, \<open>handle_task\<close> returns the
  acknowledgment \<open>{status: "accepted", message, task, round}\<close> with \<open>task\<close> and
  \<open>round\<close> of the request, and its only effects are its log lines, the call of
  \<open>store_received_task\<close> and one more entry in the background tasks: none of the
  events it adds is a generator, publisher or notifier call, and \<open>tasks\<close> and the
  hosted repositories are as before. The route sends the response in that world, and
  the pipeline \<open>process_task_with_deadline\<close> starts from the world in which the
  response has been sent.
\<close>

theorem handle_task_acknowledges_before_work:
  assumes "secret request = SECRET C"
  shows "fst (handle_task C request bg w) =
           Inr [(''status'', JStr ''accepted''),
                (''message'', JStr (''Round '' @ str_int (round request) @ '' processing started'')),
                (''task'', JStr (task request)),
                (''round'', JNum (round request))]
       \<and> fst (snd (handle_task C request bg w)) = bg @ [request]
       \<and> new_events w (snd (snd (handle_task C request bg w))) =
           [Call ''handle_task'',
            Log INFO (''Received task: '' @ task request @ '', Round: '' @ str_int (round request)),
            Call ''store_received_task'',
            Log WARNING
              (''Failed to store task in database: name '' @ [CHR 0x27] @ ''sqlite3'' @ [CHR 0x27]
                 @ '' is not defined''),
            Log INFO ''Immediate 200 OK sent, processing in background'']
       \<and> list_all (\<lambda>e. \<not> generator_call e \<and> \<not> publisher_call e \<and> \<not> notifier_call e)
           (new_events w (snd (snd (handle_task C request bg w))))
       \<and> tasks (snd (snd (handle_task C request bg w))) = tasks w
       \<and> github (snd (snd (handle_task C request bg w))) = github w
       \<and> post_api_task C L request w =
           (fst (handle_task C request [] w),
            snd (process_task_with_deadline C L request
                   (emit (Response_sent 200) (snd (snd (handle_task C request [] w))))))"
  using assms
  by (simp add: post_api_task_def handle_task_def store_received_task_def Let_def new_events_def
      logger_def emit_def generator_call_def publisher_call_def notifier_call_def)

theorem handle_task_acknowledges_before_work_witness:
  "secret sample_request = SECRET sample_config
   \<and> fst (handle_task sample_config sample_request [] sample_world) =
       Inr [(''status'', JStr ''accepted''),
            (''message'', JStr ''Round 1 processing started''),
            (''task'', JStr ''t1''),
            (''round'', JNum 1)]
   \<and> fst (snd (handle_task sample_config sample_request [] sample_world)) = [sample_request]"
  using handle_task_acknowledges_before_work
          [of sample_request sample_config "[]" sample_world sample_lib]
  by (simp add: sample_request_def sample_config_def str_int_small)

section \<open>Round 2 without a round-1 record\<close>

text \<open>
  C2. When the round is not 1 and \<open>tasks\<close> has no entry for the task id,
  \<open>process_round2\<close> raises "No Round 1 data found for this task"; the
  \<open>except Exception\<close> of \<open>process_task_with_deadline\<close> logs it and the background
  operation returns. The events added are the two entries, the two start lines and that
  error line: no Notifier call and no Repository Publisher call; \<open>tasks\<close> and the
  hosted repositories are unchanged.
\<close>

theorem round2_without_round1_record:
  assumes "round request \<noteq> 1" and "tasks w (task request) = None"
  shows "fst (process_task_with_deadline C L request w) = Inr ()
       \<and> fst (process_round2 C L request w) = Inl (Exception ''No Round 1 data found for this task'')
       \<and> new_events w (snd (process_task_with_deadline C L request w)) =
           [Call ''process_task_with_deadline'',
            Log INFO (''Starting background processing with '' @ str_nat MAX_PROCESSING_TIME
                        @ ''s deadline''),
            Call ''process_round2'',
            Log INFO (''Processing Round 2 for task: '' @ task request),
            Log ERROR ''Task processing failed: No Round 1 data found for this task'']
       \<and> list_all (\<lambda>e. \<not> notifier_call e \<and> \<not> publisher_call e \<and> \<not> generator_call e)
           (new_events w (snd (process_task_with_deadline C L request w)))
       \<and> tasks (snd (process_task_with_deadline C L request w)) = tasks w
       \<and> github (snd (process_task_with_deadline C L request w)) = github w"
  using assms
  by (simp add: process_task_with_deadline_def process_round2_def wait_for_def Let_def
      new_events_def logger_def emit_def generator_call_def publisher_call_def notifier_call_def)

theorem round2_without_round1_record_witness:
  "round (sample_request\<lparr>round := 2\<rparr>) \<noteq> 1
   \<and> tasks sample_world (task (sample_request\<lparr>round := 2\<rparr>)) = None
   \<and> fst (process_task_with_deadline sample_config sample_lib (sample_request\<lparr>round := 2\<rparr>)
            sample_world) = Inr ()
   \<and> tasks (snd (process_task_with_deadline sample_config sample_lib
                   (sample_request\<lparr>round := 2\<rparr>) sample_world)) = Map.empty"
  using round2_without_round1_record
          [of "sample_request\<lparr>round := 2\<rparr>" sample_world sample_config sample_lib]
  by (simp add: sample_request_def sample_world_def)

section \<open>The fallback application\<close>

text \<open>
  C8. \<open>generate_fallback_app\<close> reads only the brief, the checks and the task id of the
  request (and no clock or other state): two requests that agree on those three give
  the same artifact set, with the same four file names in the same order and the same
  contents, whatever their other fields are.
\<close>

theorem generate_fallback_app_deterministic:
  assumes "brief r1 = brief r2" and "checks r1 = checks r2" and "task r1 = task r2"
  shows "generate_fallback_app L r1 = generate_fallback_app L r2
       \<and> map fst (generate_fallback_app L r1) = [''index.html'', ''README.md'', ''LICENSE'', ''.gitignore'']"
  using assms by (simp add: generate_fallback_app_def Let_def)

theorem generate_fallback_app_deterministic_witness:
  "brief sample_request = brief (sample_request\<lparr>email := ''x@y.z'', nonce := ''n2'', round := 2\<rparr>)
   \<and> generate_fallback_app sample_lib sample_request =
       generate_fallback_app sample_lib (sample_request\<lparr>email := ''x@y.z'', nonce := ''n2'', round := 2\<rparr>)
   \<and> map fst (generate_fallback_app sample_lib sample_request) =
       [''index.html'', ''README.md'', ''LICENSE'', ''.gitignore'']"
proof -
  have b: "brief sample_request = brief (sample_request\<lparr>email := ''x@y.z'', nonce := ''n2'', round := 2\<rparr>)"
    and c: "checks sample_request = checks (sample_request\<lparr>email := ''x@y.z'', nonce := ''n2'', round := 2\<rparr>)"
    and t: "task sample_request = task (sample_request\<lparr>email := ''x@y.z'', nonce := ''n2'', round := 2\<rparr>)"
    by simp_all
  from generate_fallback_app_deterministic [OF b c t, of sample_lib] b show ?thesis
    by blast
qed

end
